theory Spec2Isabelle
  imports Complex_Main
begin

section \<open>CropSense sensor simulator: data model\<close>

text \<open>
  The program under study is the single file \<^verbatim>\<open>server-src/sensor_simulator.py\<close>.
  Python floats are modelled as mathematical reals, Python's unbounded integers as
  \<^typ>\<open>int\<close>, and everything the program obtains from outside (the HTTP server, the
  keyboard, the random number generator, the system clock) is read from a \<open>world\<close>
  record that is passed through every call and returned updated.
\<close>

subsection \<open>Exceptions\<close>

text \<open>
  The exceptions that can travel through the code: \<open>requests.post\<close> raises
  \<open>ConnectionError\<close> when the endpoint cannot be reached; \<open>response.json()\<close> raises
  \<open>JSONDecodeError\<close> when the body is not JSON; Ctrl+C raises \<open>KeyboardInterrupt\<close>;
  \<open>mq2_rs / mq2_r0\<close> raises \<open>ZeroDivisionError\<close> for a zero divisor; and
  \<open>time.sleep\<close> raises \<open>ValueError\<close> for a negative duration.
\<close>

datatype exn =
    ConnectionError
  | JSONDecodeError
  | KeyboardInterrupt
  | ZeroDivisionError
  | ValueError

subsection \<open>Sensors and readings\<close>

text \<open>The instance attributes of class \<open>SensorSimulator\<close>, as \<open>__init__\<close> sets them.\<close>

record sensor =
  name :: string
  location :: string
  plant_id :: string
  disease_status :: string
  time_offset :: real
  registered :: bool
  gas_resistance_base :: real

text \<open>
  The dictionary returned by \<open>generate_reading\<close>. Its first three keys are spelled
  \<open>name\<close>, \<open>plant_id\<close> and \<open>disease_status\<close> in the source; they carry the prefix
  \<open>rd_\<close> here because the sensor record already owns those field names.
\<close>

record reading =
  rd_name :: string
  rd_plant_id :: string
  rd_disease_status :: string
  timestamp :: int
  temperature :: real
  humidity :: real
  pressure :: real
  gasResistance :: real
  mq2_rs :: real
  mq2_ratio :: real
  mq2_r0 :: real
  mq2_delta :: real
  mq2_variance :: real
  mq2_baseline :: real

subsection \<open>The outside world\<close>

text \<open>
  An HTTP response as the code uses it: \<open>response.status_code\<close> and the result of
  \<open>response.json()\<close>, which is \<open>None\<close> when the body is not valid JSON.
\<close>

record response =
  status_code :: nat
  json_body :: "string option"

datatype reply = Unreachable | Replied response

text \<open>The JSON body of a POST: the registration object or a full reading.\<close>

datatype payload = Registration string string | Update reading

text \<open>One constructor per \<open>print\<close> statement of the source.\<close>

datatype message =
    Registered_successfully string
  | Registration_failed string string
  | Connection_failed_is_the_server_running string
  | Sent string real real real
  | Update_failed_reregistering string
  | Update_still_failed string string
  | Connection_failed string
  | Starting_simulation nat
  | Server string
  | Update_interval real
  | Dashes
  | Sending_readings
  | Simulation_stopped

text \<open>
  \<^item> \<open>server w i\<close> is what the endpoint does when the \<open>i\<close>-th blocking call of the run is a
    POST; \<open>sigint w = Some i\<close> means that Ctrl+C arrives while the process is inside its
    \<open>i\<close>-th blocking call (a POST or a sleep); \<open>calls\<close> counts the blocking calls so far.
  \<^item> \<open>randoms\<close> and \<open>normals\<close> are the values \<open>random.random()\<close> and the standard normal
    variate inside \<open>random.gauss\<close> take on the \<open>i\<close>-th use of the generator; \<open>drawn\<close>
    counts the uses.
  \<^item> \<open>clock w i\<close> is the result of the \<open>i\<close>-th call of \<open>time.time()\<close>; \<open>reads\<close> counts them.
  \<^item> \<open>BASE_URL\<close> is the module global of that name, \<open>sent\<close> the requests handed to
    \<open>requests.post\<close> (URL and body, oldest first, delivered or not) and \<open>stdout\<close> the
    lines printed.
\<close>

record world =
  server :: "nat \<Rightarrow> reply"
  sigint :: "nat option"
  calls :: nat
  randoms :: "nat \<Rightarrow> real"
  normals :: "nat \<Rightarrow> real"
  drawn :: nat
  clock :: "nat \<Rightarrow> real"
  reads :: nat
  BASE_URL :: string
  sent :: "(string \<times> payload) list"
  stdout :: "message list"

section \<open>Library calls\<close>

definition print :: "message \<Rightarrow> world \<Rightarrow> world" where
  "print m w = w\<lparr>stdout := stdout w @ [m]\<rparr>"

text \<open>
  \<open>requests.post(url, json=js)\<close>: interrupted, unreachable, or answered. A request that
  is interrupted is not recorded in \<open>sent\<close>; one that finds the endpoint unreachable is.
\<close>

definition requests_post :: "string \<Rightarrow> payload \<Rightarrow> world \<Rightarrow> (exn + response) \<times> world" where
  "requests_post url js w =
     (if sigint w = Some (calls w) then (Inl KeyboardInterrupt, w\<lparr>calls := Suc (calls w)\<rparr>)
      else
        (let w' = w\<lparr>calls := Suc (calls w), sent := sent w @ [(url, js)]\<rparr> in
         case server w (calls w) of
           Unreachable \<Rightarrow> (Inl ConnectionError, w')
         | Replied r \<Rightarrow> (Inr r, w')))"

definition response_json :: "response \<Rightarrow> exn + string" where
  "response_json r = (case json_body r of None \<Rightarrow> Inl JSONDecodeError | Some j \<Rightarrow> Inr j)"

definition time_sleep :: "real \<Rightarrow> world \<Rightarrow> (exn + unit) \<times> world" where
  "time_sleep secs w =
     (if secs < 0 then (Inl ValueError, w)
      else if sigint w = Some (calls w) then (Inl KeyboardInterrupt, w\<lparr>calls := Suc (calls w)\<rparr>)
      else (Inr (), w\<lparr>calls := Suc (calls w)\<rparr>))"

definition time_time :: "world \<Rightarrow> real \<times> world" where
  "time_time w = (clock w (reads w), w\<lparr>reads := Suc (reads w)\<rparr>)"

text \<open>\<open>random.gauss(mu, sigma)\<close> returns \<open>mu + z * sigma\<close> for a standard normal \<open>z\<close>.\<close>

definition random_gauss :: "real \<Rightarrow> real \<Rightarrow> world \<Rightarrow> real \<times> world" where
  "random_gauss mu sigma w = (mu + normals w (drawn w) * sigma, w\<lparr>drawn := Suc (drawn w)\<rparr>)"

text \<open>\<open>random.uniform(a, b)\<close> returns \<open>a + (b - a) * random()\<close>.\<close>

definition random_uniform :: "real \<Rightarrow> real \<Rightarrow> world \<Rightarrow> real \<times> world" where
  "random_uniform a b w = (a + (b - a) * randoms w (drawn w), w\<lparr>drawn := Suc (drawn w)\<rparr>)"

text \<open>
  \<open>round(x, n)\<close> on a float rounds to \<open>n\<close> decimals, a tie going to the even neighbour;
  \<open>int(x)\<close> truncates towards zero.
\<close>

definition round_half_even :: "real \<Rightarrow> int" where
  "round_half_even y =
     (let f = \<lfloor>y\<rfloor>; d = y - of_int f in
      if d < 1 / 2 then f
      else if 1 / 2 < d then f + 1
      else if even f then f else f + 1)"

definition py_round :: "real \<Rightarrow> nat \<Rightarrow> real" where
  "py_round x n = of_int (round_half_even (x * 10 ^ n)) / 10 ^ n"

definition py_int :: "real \<Rightarrow> int" where
  "py_int x = (if 0 \<le> x then \<lfloor>x\<rfloor> else \<lceil>x\<rceil>)"

section \<open>The simulator\<close>

definition BASELINES :: "string \<rightharpoonup> real" where
  "BASELINES = map_of
     [(''temperature'', 20.0),
      (''humidity'', 35.0),
      (''pressure'', 101.0),
      (''gasResistance'', 150.0),
      (''mq2_r0'', 320.0)]"

text \<open>\<open>SensorSimulator.__init__\<close> (lines 26-35).\<close>

definition SensorSimulator :: "string \<Rightarrow> string \<Rightarrow> string \<Rightarrow> string \<Rightarrow> world \<Rightarrow> sensor \<times> world" where
  "SensorSimulator nm loc pid disease w =
     (let (u, w1) = random_uniform 0 (2 * pi) w in
      (\<lparr>name = nm, location = loc, plant_id = pid, disease_status = disease,
        time_offset = u, registered = False,
        gas_resistance_base = (if disease = ''healthy'' then 150.0 else 50.0)\<rparr>, w1))"

text \<open>
  \<open>SensorSimulator.register\<close> (lines 37-50). Only \<open>ConnectionError\<close> is caught; any
  other exception raised inside the \<open>try\<close> block leaves the method.
\<close>

definition register :: "sensor \<Rightarrow> world \<Rightarrow> (exn + unit) \<times> sensor \<times> world" where
  "register s w =
     (case requests_post (BASE_URL w @ ''/register'') (Registration (name s) (location s)) w of
        (Inl e, w1) \<Rightarrow>
          if e = ConnectionError
          then (Inr (), s, print (Connection_failed_is_the_server_running (name s)) w1)
          else (Inl e, s, w1)
      | (Inr resp, w1) \<Rightarrow>
          if status_code resp = 200
          then (Inr (), s\<lparr>registered := True\<rparr>, print (Registered_successfully (name s)) w1)
          else
            (case response_json resp of
               Inl e \<Rightarrow> (Inl e, s, w1)
             | Inr j \<Rightarrow> (Inr (), s, print (Registration_failed (name s) j) w1)))"

text \<open>
  \<open>SensorSimulator.generate_reading\<close> (lines 52-95). The nine Gaussian draws and the two
  clock reads happen in the order of the source; the division of line 75 raises when
  \<open>mq2_r0\<close> is zero, after six of the draws.
\<close>

definition generate_reading :: "sensor \<Rightarrow> world \<Rightarrow> (exn + reading) \<times> world" where
  "generate_reading s w =
     (let (now, w) = time_time w;
          t = now + time_offset s;
          (g, w) = random_gauss 0 0.3 w;
          temp_variation = 2 * sin (t / 60) + g;
          temperature' = the (BASELINES ''temperature'') + temp_variation;
          (g, w) = random_gauss 0 0.5 w;
          humidity_variation = - 1.5 * sin (t / 60) + g;
          humidity' = the (BASELINES ''humidity'') + humidity_variation;
          (g, w) = random_gauss 0 0.05 w;
          pressure_variation = 0.5 * sin (t / 300) + g;
          pressure' = the (BASELINES ''pressure'') + pressure_variation;
          (gas_variation, w) = random_gauss 0 (gas_resistance_base s * 0.1) w;
          gas_resistance = gas_resistance_base s + gas_variation;
          (g, w) = random_gauss 0 5 w;
          mq2_r0' = the (BASELINES ''mq2_r0'') + g;
          (g, w) = random_gauss 0 0.2 w;
          mq2_rs' = mq2_r0' * (3 + g)
      in
        if mq2_r0' = 0 then (Inl ZeroDivisionError, w)
        else
          (let mq2_ratio' = mq2_rs' / mq2_r0';
               (mq2_delta', w) = random_gauss 0.15 0.05 w;
               (mq2_variance', w) = random_gauss 3.0 0.5 w;
               (mq2_baseline', w) = random_gauss 1.35 0.1 w;
               (now2, w) = time_time w
           in
             (Inr \<lparr>rd_name = name s,
                   rd_plant_id = plant_id s,
                   rd_disease_status = disease_status s,
                   timestamp = py_int (now2 * 1000000),
                   temperature = py_round temperature' 2,
                   humidity = py_round humidity' 2,
                   pressure = py_round pressure' 3,
                   gasResistance = py_round gas_resistance 2,
                   mq2_rs = py_round mq2_rs' 2,
                   mq2_ratio = py_round mq2_ratio' 3,
                   mq2_r0 = py_round mq2_r0' 1,
                   mq2_delta = py_round mq2_delta' 4,
                   mq2_variance = py_round mq2_variance' 5,
                   mq2_baseline = py_round mq2_baseline' 4\<rparr>, w)))"

text \<open>
  The \<open>try\<close> block of \<open>send_reading\<close> (lines 104-119), for a reading already generated:
  the first POST, and on a status other than 200 the re-registration and the second POST.
\<close>

definition send_reading_try :: "reading \<Rightarrow> sensor \<Rightarrow> world \<Rightarrow> (exn + unit) \<times> sensor \<times> world" where
  "send_reading_try rd s w =
     (case requests_post (BASE_URL w @ ''/update'') (Update rd) w of
        (Inl e, w1) \<Rightarrow> (Inl e, s, w1)
      | (Inr resp, w1) \<Rightarrow>
          if status_code resp = 200
          then (Inr (), s, print (Sent (name s) (temperature rd) (humidity rd) (gasResistance rd)) w1)
          else
            (let w2 = print (Update_failed_reregistering (name s)) w1;
                 s1 = s\<lparr>registered := False\<rparr>
             in case register s1 w2 of
                  (Inl e, s2, w3) \<Rightarrow> (Inl e, s2, w3)
                | (Inr u, s2, w3) \<Rightarrow>
                    (case requests_post (BASE_URL w3 @ ''/update'') (Update rd) w3 of
                       (Inl e, w4) \<Rightarrow> (Inl e, s2, w4)
                     | (Inr resp2, w4) \<Rightarrow>
                         if status_code resp2 = 200
                         then (Inr (), s2,
                               print (Sent (name s2) (temperature rd) (humidity rd) (gasResistance rd)) w4)
                         else
                           (case response_json resp2 of
                              Inl e \<Rightarrow> (Inl e, s2, w4)
                            | Inr j \<Rightarrow> (Inr (), s2, print (Update_still_failed (name s2) j) w4)))))"

text \<open>
  \<open>SensorSimulator.send_reading\<close> (lines 97-121): the registration of line 100 and the
  call of \<open>generate_reading\<close> stand before the \<open>try\<close>; the handler of lines 120-121
  catches \<open>ConnectionError\<close> from anywhere in the block and nothing else.
\<close>

definition send_reading :: "sensor \<Rightarrow> world \<Rightarrow> (exn + unit) \<times> sensor \<times> world" where
  "send_reading s w =
     (case (if \<not> registered s then register s w else (Inr (), s, w)) of
        (Inl e, s1, w1) \<Rightarrow> (Inl e, s1, w1)
      | (Inr u, s1, w1) \<Rightarrow>
          (case generate_reading s1 w1 of
             (Inl e, w2) \<Rightarrow> (Inl e, s1, w2)
           | (Inr rd, w2) \<Rightarrow>
               (case send_reading_try rd s1 w2 of
                  (Inl e, s2, w3) \<Rightarrow>
                    if e = ConnectionError
                    then (Inr (), s2, print (Connection_failed (name s2)) w3)
                    else (Inl e, s2, w3)
                | (Inr u', s2, w3) \<Rightarrow> (Inr (), s2, w3))))"

section \<open>The command line program\<close>

text \<open>The parsed command line: \<open>--url\<close>, \<open>--interval\<close> and \<open>--sensors\<close>.\<close>

record args =
  url :: string
  interval :: real
  sensors :: int

text \<open>
  The format specifications \<open>02d\<close> and \<open>03d\<close> of lines 143-145: the decimal digits of a
  non-negative integer, padded with zeros on the left to the given width.
\<close>

definition digit :: "nat \<Rightarrow> char" where
  "digit d = ''0123456789'' ! d"

fun str :: "nat \<Rightarrow> string" where
  "str n = (if n < 10 then [digit n] else str (n div 10) @ [digit (n mod 10)])"

declare str.simps [simp del]

definition format_0d :: "nat \<Rightarrow> nat \<Rightarrow> string" where
  "format_0d width n = replicate (width - length (str n)) (CHR ''0'') @ str n"

text \<open>
  The loop of lines 139-148 over \<open>range(args.sensors)\<close>, one sensor per index.
\<close>

fun make_sensors :: "nat list \<Rightarrow> world \<Rightarrow> sensor list \<times> world" where
  "make_sensors [] w = ([], w)"
| "make_sensors (i # rest) w =
     (let sensor_num = i + 1;
          disease = (if i mod 3 \<noteq> 2 then ''healthy'' else ''infected'');
          (sensor, w1) = SensorSimulator
             (''sensor_'' @ format_0d 2 sensor_num)
             (''greenhouse_zone_'' @ str sensor_num)
             (''plant_'' @ format_0d 3 sensor_num)
             disease w;
          (others, w2) = make_sensors rest w1
      in (sensor # others, w2))"

definition py_range :: "int \<Rightarrow> nat list" where
  "py_range n = [0..<nat n]"

text \<open>
  The registration pass of lines 156-158. It stands outside every \<open>try\<close>, so the first
  exception ends it and leaves \<open>main\<close>.
\<close>

fun register_all :: "sensor list \<Rightarrow> world \<Rightarrow> (exn + unit) \<times> sensor list \<times> world" where
  "register_all [] w = (Inr (), [], w)"
| "register_all (s # rest) w =
     (case register s w of
        (Inl e, s1, w1) \<Rightarrow> (Inl e, s1 # rest, w1)
      | (Inr u, s1, w1) \<Rightarrow>
          (case time_sleep 0.1 w1 of
             (Inl e, w2) \<Rightarrow> (Inl e, s1 # rest, w2)
           | (Inr u', w2) \<Rightarrow>
               (case register_all rest w2 of (r, rest1, w3) \<Rightarrow> (r, s1 # rest1, w3))))"

text \<open>The inner \<open>for\<close> loop of lines 167-168.\<close>

fun send_all :: "sensor list \<Rightarrow> world \<Rightarrow> (exn + unit) \<times> sensor list \<times> world" where
  "send_all [] w = (Inr (), [], w)"
| "send_all (s # rest) w =
     (case send_reading s w of
        (Inl e, s1, w1) \<Rightarrow> (Inl e, s1 # rest, w1)
      | (Inr u, s1, w1) \<Rightarrow>
          (case send_all rest w1 of (r, rest1, w2) \<Rightarrow> (r, s1 # rest1, w2)))"

text \<open>
  The \<open>while True\<close> loop of lines 166-169. It has no exit of its own: it ends only by an
  exception. The first argument bounds the number of rounds that are followed; \<open>None\<close>
  says that the loop is still running after that many rounds.
\<close>

fun main_loop :: "nat \<Rightarrow> real \<Rightarrow> sensor list \<Rightarrow> world \<Rightarrow> (exn \<times> sensor list \<times> world) option" where
  "main_loop 0 secs ss w = None"
| "main_loop (Suc n) secs ss w =
     (case send_all ss w of
        (Inl e, ss1, w1) \<Rightarrow> Some (e, ss1, w1)
      | (Inr u, ss1, w1) \<Rightarrow>
          (case time_sleep secs w1 of
             (Inl e, w2) \<Rightarrow> Some (e, ss1, w2)
           | (Inr u', w2) \<Rightarrow> main_loop n secs ss1 w2))"

text \<open>
  Lines 165-171: the loop inside \<open>try ... except KeyboardInterrupt\<close>. Started with the
  sensors and the world the registration pass left behind.
\<close>

definition main_try :: "nat \<Rightarrow> real \<Rightarrow> sensor list \<Rightarrow> world \<Rightarrow> ((exn + unit) \<times> sensor list \<times> world) option" where
  "main_try n secs ss w =
     (case main_loop n secs ss w of
        None \<Rightarrow> None
      | Some (e, ss1, w1) \<Rightarrow>
          if e = KeyboardInterrupt then Some (Inr (), ss1, print Simulation_stopped w1)
          else Some (Inl e, ss1, w1))"

text \<open>\<open>main\<close> (lines 124-171), after \<open>parse_args\<close> has produced the arguments.\<close>

definition main :: "nat \<Rightarrow> args \<Rightarrow> world \<Rightarrow> ((exn + unit) \<times> sensor list \<times> world) option" where
  "main n a w0 =
     (let w = w0\<lparr>BASE_URL := url a\<rparr>;
          (ss, w) = make_sensors (py_range (sensors a)) w;
          w = print (Starting_simulation (length ss)) w;
          w = print (Server (BASE_URL w)) w;
          w = print (Update_interval (interval a)) w;
          w = print Dashes w
      in case register_all ss w of
           (Inl e, ss1, w1) \<Rightarrow> Some (Inl e, ss1, w1)
         | (Inr u, ss1, w1) \<Rightarrow>
             (let w1 = print Dashes w1;
                  w1 = print Sending_readings w1;
                  w1 = print Dashes w1
              in main_try n (interval a) ss1 w1))"

text \<open>
  What the operating system sees: 0 when \<open>main\<close> returns, and a failure status when an
  exception leaves it (the interpreter prints a traceback; for an uncaught
  \<open>KeyboardInterrupt\<close> the shell reports 130).
\<close>

definition exit_code :: "exn + unit \<Rightarrow> nat" where
  "exit_code r = (case r of Inr u \<Rightarrow> 0 | Inl e \<Rightarrow> if e = KeyboardInterrupt then 130 else 1)"

text \<open>
  Any sequence of method calls on one sensor. A caller may catch what a call raises and
  go on, so the sequence continues after an exception; the reading that
  \<open>generate_reading\<close> returns is dropped.
\<close>

datatype invocation = Call_register | Call_generate_reading | Call_send_reading

fun call :: "invocation \<Rightarrow> sensor \<Rightarrow> world \<Rightarrow> sensor \<times> world" where
  "call Call_register s w = snd (register s w)"
| "call Call_generate_reading s w = (s, snd (generate_reading s w))"
| "call Call_send_reading s w = snd (send_reading s w)"

fun calls_seq :: "invocation list \<Rightarrow> sensor \<Rightarrow> world \<Rightarrow> sensor \<times> world" where
  "calls_seq [] s w = (s, w)"
| "calls_seq (m # ms) s w = (case call m s w of (s1, w1) \<Rightarrow> calls_seq ms s1 w1)"

section \<open>Vocabulary of the properties\<close>

text \<open>
  The server accepts a request when it answers with status 200. \<open>accepts w\<close> says that
  the next blocking call of \<open>w\<close>, taken as a POST, is neither interrupted nor refused.
\<close>

definition accepted :: "reply \<Rightarrow> bool" where
  "accepted rp = (case rp of Unreachable \<Rightarrow> False | Replied resp \<Rightarrow> status_code resp = 200)"

definition accepts :: "world \<Rightarrow> bool" where
  "accepts w = (sigint w \<noteq> Some (calls w) \<and> accepted (server w (calls w)))"

text \<open>
  A rejection whose body is not JSON: the \<open>response.json()\<close> inside the failure message
  of lines 48 and 119 raises on it.
\<close>

definition raises_json :: "reply \<Rightarrow> bool" where
  "raises_json rp =
     (case rp of Unreachable \<Rightarrow> False | Replied resp \<Rightarrow> status_code resp \<noteq> 200 \<and> json_body resp = None)"

text \<open>The \<open>i\<close>-th normal variate, used for \<open>mq2_r0\<close>, would make the divisor of line 75 zero.\<close>

definition zero_divisor :: "world \<Rightarrow> nat \<Rightarrow> bool" where
  "zero_divisor w i = (the (BASELINES ''mq2_r0'') + (0 + normals w i * 5) = 0)"

text \<open>
  A world in which the only exception that can leave a method is \<open>KeyboardInterrupt\<close>:
  every rejection carries a JSON body and no variate makes \<open>mq2_r0\<close> zero.
\<close>

definition quiet :: "world \<Rightarrow> bool" where
  "quiet w = ((\<forall>i. \<not> raises_json (server w i)) \<and> (\<forall>i. \<not> zero_divisor w i))"

text \<open>The fields of a sensor other than \<open>registered\<close> agree.\<close>

definition same_node :: "sensor \<Rightarrow> sensor \<Rightarrow> bool" where
  "same_node s s' =
     (name s' = name s \<and> location s' = location s \<and> plant_id s' = plant_id s \<and>
      disease_status s' = disease_status s \<and> time_offset s' = time_offset s \<and>
      gas_resistance_base s' = gas_resistance_base s)"

text \<open>
  \<open>w'\<close> is a later state of the same surroundings as \<open>w\<close>; the interrupt falls on one of
  the blocking calls made between \<open>w\<close> and \<open>w'\<close>.
\<close>

definition same_env :: "world \<Rightarrow> world \<Rightarrow> bool" where
  "same_env w w' =
     (server w' = server w \<and> normals w' = normals w \<and> sigint w' = sigint w \<and> calls w \<le> calls w')"

definition interrupted_in :: "world \<Rightarrow> world \<Rightarrow> bool" where
  "interrupted_in w w' = (case sigint w of None \<Rightarrow> False | Some k \<Rightarrow> calls w \<le> k \<and> k < calls w')"




fun updates :: "(string \<times> payload) list \<Rightarrow> reading list" where
  "updates [] = []"
| "updates ((u, Update rd) # rest) = rd # updates rest"
| "updates ((u, Registration n l) # rest) = updates rest"

text \<open>
  \<open>moved w w' k new d t\<close>: from \<open>w\<close> to \<open>w'\<close> the program made \<open>k\<close> blocking calls, sent
  the requests \<open>new\<close>, used the random generator \<open>d\<close> times and read the clock \<open>t\<close> times;
  the surroundings are the same.
\<close>

definition moved :: "world \<Rightarrow> world \<Rightarrow> nat \<Rightarrow> (string \<times> payload) list \<Rightarrow> nat \<Rightarrow> nat \<Rightarrow> bool" where
  "moved w w' k new d t =
     (server w' = server w \<and> sigint w' = sigint w \<and> BASE_URL w' = BASE_URL w \<and>
      randoms w' = randoms w \<and> normals w' = normals w \<and> clock w' = clock w \<and>
      calls w' = calls w + k \<and> sent w' = sent w @ new \<and>
      drawn w' = drawn w + d \<and> reads w' = reads w + t)"

text \<open>
  The unrounded \<open>mq2_r0\<close> and \<open>mq2_rs\<close> of the reading generated in \<open>w\<close> (lines 73 and 74):
  they use the fifth and the sixth Gaussian draw of the call.
\<close>

definition raw_mq2_r0 :: "world \<Rightarrow> real" where
  "raw_mq2_r0 w = the (BASELINES ''mq2_r0'') + fst (random_gauss 0 5 (w\<lparr>drawn := drawn w + 4\<rparr>))"

definition raw_mq2_rs :: "world \<Rightarrow> real" where
  "raw_mq2_rs w = raw_mq2_r0 w * (3 + fst (random_gauss 0 0.2 (w\<lparr>drawn := drawn w + 5\<rparr>)))"

subsection \<open>Concrete inputs\<close>

text \<open>
  A server that accepts everything, a generator whose variates are all zero and a clock
  that stands at zero; no interrupt. The other worlds differ from it in one field.
\<close>

definition answer :: "nat \<Rightarrow> string option \<Rightarrow> reply" where
  "answer code js = Replied \<lparr>status_code = code, json_body = js\<rparr>"

definition world0 :: world where
  "world0 = \<lparr>server = (\<lambda>i. answer 200 (Some ''{}'')), sigint = None, calls = 0,
     randoms = (\<lambda>i. 0), normals = (\<lambda>i. 0), drawn = 0, clock = (\<lambda>i. 0), reads = 0,
     BASE_URL = ''http://localhost:5000'', sent = [], stdout = []\<rparr>"

definition world_sigint :: "nat \<Rightarrow> world" where
  "world_sigint k = world0\<lparr>sigint := Some k\<rparr>"

definition args0 :: args where
  "args0 = \<lparr>url = ''http://localhost:5000'', interval = 2, sensors = 2\<rparr>"

text \<open>
  A server that gives the listed replies to the first blocking calls and accepts after
  them; a generator whose first normal variates are the listed ones.
\<close>

definition world_replies :: "reply list \<Rightarrow> world" where
  "world_replies rs =
     world0\<lparr>server := (\<lambda>i. if i < length rs then rs ! i else answer 200 (Some ''{}''))\<rparr>"

definition world_normals :: "real list \<Rightarrow> world" where
  "world_normals zs = world0\<lparr>normals := (\<lambda>i. if i < length zs then zs ! i else 0)\<rparr>"

definition world_clock :: "real \<Rightarrow> world" where
  "world_clock c = world0\<lparr>clock := (\<lambda>i. c)\<rparr>"

text \<open>
  The first sensor that \<open>main\<close> builds when the uniform draw is zero, and the reading it
  generates in \<open>world0\<close>.
\<close>

definition sensor0 :: sensor where
  "sensor0 = \<lparr>name = ''sensor_01'', location = ''greenhouse_zone_1'', plant_id = ''plant_001'',
     disease_status = ''healthy'', time_offset = 0, registered = False, gas_resistance_base = 150\<rparr>"

definition reading0 :: reading where
  "reading0 = \<lparr>rd_name = ''sensor_01'', rd_plant_id = ''plant_001'', rd_disease_status = ''healthy'',
     timestamp = 0, temperature = 20, humidity = 35, pressure = 101, gasResistance = 150,
     mq2_rs = 960, mq2_ratio = 3, mq2_r0 = 320, mq2_delta = 0.15, mq2_variance = 3,
     mq2_baseline = 1.35\<rparr>"

section \<open>Auxiliary facts\<close>

lemma same_node_refl [simp]: "same_node s s"
  by (simp add: same_node_def)

lemma same_node_flag [simp]: "same_node s (s\<lparr>registered := b\<rparr>)"
  by (simp add: same_node_def)

lemma same_node_trans: "same_node a b \<Longrightarrow> same_node b c \<Longrightarrow> same_node a c"
  by (simp add: same_node_def)

lemma register_sensor: "fst (snd (register s w)) = s\<lparr>registered := accepts w \<or> registered s\<rparr>"
  by (simp add: register_def requests_post_def response_json_def accepts_def accepted_def Let_def
      split: reply.split option.split)

lemma register_same_node: "register s w = (r, s', w') \<Longrightarrow> same_node s s'"
  using register_sensor[of s w] by simp

lemma send_reading_try_same_node:
  assumes "send_reading_try rd s w = (r, s', w')"
  shows "same_node s s'"
proof -
  have flag: "same_node s s2" if "register (s\<lparr>registered := False\<rparr>) w2 = (r2, s2, w3)" for w2 r2 s2 w3
    using register_same_node[OF that] by (simp add: same_node_def)
  from assms show ?thesis
    by (auto simp: send_reading_try_def Let_def split: prod.splits sum.splits if_splits
        dest: flag)
qed

lemma send_reading_same_node:
  assumes "send_reading s w = (r, s', w')"
  shows "same_node s s'"
proof (cases "registered s")
  case True
  with assms show ?thesis
    by (auto simp: send_reading_def split: prod.splits sum.splits if_splits
        dest: send_reading_try_same_node)
next
  case False
  obtain r1 s1 w1 where reg: "register s w = (r1, s1, w1)" by (cases "register s w")
  have a: "same_node s s1" by (rule register_same_node[OF reg])
  from assms False reg have "s' = s1 \<or> (\<exists>rd w2 r2 w3. send_reading_try rd s1 w2 = (r2, s', w3))"
    by (auto simp: send_reading_def split: prod.splits sum.splits if_splits)
  then show ?thesis
    using a send_reading_try_same_node same_node_trans by blast
qed

lemma call_same_node: "call m s w = (s', w') \<Longrightarrow> same_node s s'"
  by (cases m; cases "register s w"; cases "send_reading s w")
     (auto dest: register_same_node send_reading_same_node)

lemma calls_seq_same_node: "calls_seq ms s w = (s', w') \<Longrightarrow> same_node s s'"
proof (induction ms arbitrary: s w)
  case Nil
  then show ?case by simp
next
  case (Cons m ms)
  obtain s1 w1 where c: "call m s w = (s1, w1)" by (cases "call m s w")
  with Cons.prems have "calls_seq ms s1 w1 = (s', w')" by simp
  from Cons.IH[OF this] call_same_node[OF c] show ?case
    by (rule same_node_trans[rotated])
qed

lemma print_fields [simp]:
  "server (print m w) = server w" "sigint (print m w) = sigint w" "calls (print m w) = calls w"
  "randoms (print m w) = randoms w" "normals (print m w) = normals w" "drawn (print m w) = drawn w"
  "clock (print m w) = clock w" "reads (print m w) = reads w" "BASE_URL (print m w) = BASE_URL w"
  "sent (print m w) = sent w" "stdout (print m w) = stdout w @ [m]"
  by (simp_all add: print_def)

lemma same_env_refl [simp]: "same_env w w"
  by (simp add: same_env_def)

lemma same_env_print [simp]: "same_env w (print m w') = same_env w w'"
  by (simp add: same_env_def)

lemma same_env_trans: "same_env a b \<Longrightarrow> same_env b c \<Longrightarrow> same_env a c"
  by (simp add: same_env_def)

lemma same_env_quiet: "same_env w w' \<Longrightarrow> quiet w \<Longrightarrow> quiet w'"
  by (simp add: same_env_def quiet_def zero_divisor_def)

lemma quiet_print [simp]: "quiet (print m w) = quiet w"
  by (simp add: quiet_def zero_divisor_def)

lemma interrupted_in_print [simp]: "interrupted_in w (print m w') = interrupted_in w w'"
  "interrupted_in (print m w) w' = interrupted_in w w'"
  by (simp_all add: interrupted_in_def split: option.split)

lemma interrupted_in_self [simp]: "\<not> interrupted_in w w"
  by (simp add: interrupted_in_def split: option.split)

lemma interrupted_in_trans:
  "same_env a b \<Longrightarrow> same_env b c \<Longrightarrow> interrupted_in a c = (interrupted_in a b \<or> interrupted_in b c)"
  by (auto simp: same_env_def interrupted_in_def split: option.splits)

lemma requests_post_step:
  assumes "requests_post u js w = (r, w')"
  shows "same_env w w' \<and> calls w' = Suc (calls w) \<and>
         (if interrupted_in w w' then r = Inl KeyboardInterrupt
          else case server w (calls w) of Unreachable \<Rightarrow> r = Inl ConnectionError | Replied resp \<Rightarrow> r = Inr resp)"
  using assms
  by (auto simp: requests_post_def same_env_def interrupted_in_def Let_def
      split: if_splits reply.splits option.splits)


lemma register_step:
  assumes "register s w = (r, s', w')" "quiet w"
  shows "same_env w w' \<and> r = (if interrupted_in w w' then Inl KeyboardInterrupt else Inr ())"
proof -
  obtain r1 w1 where p: "requests_post (BASE_URL w @ ''/register'') (Registration (name s) (location s)) w = (r1, w1)"
    by (cases "requests_post (BASE_URL w @ ''/register'') (Registration (name s) (location s)) w")
  note st = requests_post_step[OF p]
  have nj: "\<not> raises_json (server w (calls w))" using assms(2) by (simp add: quiet_def)
  show ?thesis
  proof (cases "interrupted_in w w1")
    case True
    with st assms(1) p show ?thesis by (simp add: register_def)
  next
    case False
    with st assms(1) p nj show ?thesis
      by (auto simp: register_def raises_json_def response_json_def
          split: reply.splits if_splits option.splits)
  qed
qed

lemma generate_reading_step:
  assumes "quiet w"
  shows "\<exists>rd w'. generate_reading s w = (Inr rd, w') \<and> same_env w w' \<and> calls w' = calls w"
  using assms
  by (simp add: generate_reading_def quiet_def zero_divisor_def time_time_def random_gauss_def
      Let_def same_env_def)

lemma send_reading_try_step:
  assumes "send_reading_try rd s w = (r, s', w')" "quiet w"
  shows "same_env w w' \<and>
         (if interrupted_in w w' then r = Inl KeyboardInterrupt
          else r = Inr () \<or> r = Inl ConnectionError)"
proof -
  let ?u = "BASE_URL w @ ''/update''"
  obtain r1 w1 where p1: "requests_post ?u (Update rd) w = (r1, w1)"
    by (cases "requests_post ?u (Update rd) w")
  note st1 = requests_post_step[OF p1]
  then have e1: "same_env w w1" by simp
  show ?thesis
  proof (cases r1)
    case (Inl e)
    with assms(1) p1 st1 show ?thesis
      by (auto simp: send_reading_try_def split: if_splits reply.splits)
  next
    case (Inr resp)
    show ?thesis
    proof (cases "status_code resp = 200")
      case True
      with Inr assms(1) p1 st1 show ?thesis
        by (auto simp: send_reading_try_def split: if_splits reply.splits)
    next
      case False
      have ni1: "\<not> interrupted_in w w1" using st1 Inr by (auto split: if_splits)
      let ?w2 = "print (Update_failed_reregistering (name s)) w1"
      obtain r2 s2 w3 where rg: "register (s\<lparr>registered := False\<rparr>) ?w2 = (r2, s2, w3)"
        by (cases "register (s\<lparr>registered := False\<rparr>) ?w2")
      have q2: "quiet ?w2" using same_env_quiet[OF e1 assms(2)] by simp
      note st2 = register_step[OF rg q2]
      have e2: "same_env w1 w3" using st2 by (simp add: same_env_def)
      have i2: "interrupted_in w w3 = interrupted_in w1 w3"
        using interrupted_in_trans[OF e1 e2] ni1 by simp
      have i2': "interrupted_in ?w2 w3 = interrupted_in w1 w3" by simp
      show ?thesis
      proof (cases r2)
        case (Inl e)
        with Inr False assms(1) p1 rg st2 i2 i2' same_env_trans[OF e1 e2] show ?thesis
          by (auto simp: send_reading_try_def Let_def split: if_splits)
      next
        case r2: (Inr u)
        have ni2: "\<not> interrupted_in w w3" using st2 r2 i2 i2' by (auto split: if_splits)
        let ?u3 = "BASE_URL w3 @ ''/update''"
        obtain r3 w4 where p3: "requests_post ?u3 (Update rd) w3 = (r3, w4)"
          by (cases "requests_post ?u3 (Update rd) w3")
        note st3 = requests_post_step[OF p3]
        then have e3: "same_env w3 w4" by simp
        have e13: "same_env w w3" by (rule same_env_trans[OF e1 e2])
        have i3: "interrupted_in w w4 = interrupted_in w3 w4"
          using interrupted_in_trans[OF e13 e3] ni2 by simp
        have e4: "same_env w w4" by (rule same_env_trans[OF e13 e3])
        have nj: "\<not> raises_json (server w3 (calls w3))"
          using same_env_quiet[OF e13 assms(2)] by (simp add: quiet_def)
        from Inr False r2 assms(1) p1 rg p3 st3 i3 e4 nj show ?thesis
          by (auto simp: send_reading_try_def Let_def raises_json_def response_json_def
              split: if_splits reply.splits sum.splits option.splits)
      qed
    qed
  qed
qed

lemma send_reading_step:
  assumes "send_reading s w = (r, s', w')" "quiet w"
  shows "same_env w w' \<and> r = (if interrupted_in w w' then Inl KeyboardInterrupt else Inr ())"
proof -
  obtain r1 s1 w1 where pre: "(if \<not> registered s then register s w else (Inr (), s, w)) = (r1, s1, w1)"
    by (cases "if \<not> registered s then register s w else (Inr (), s, w)")
  have st1: "same_env w w1 \<and> r1 = (if interrupted_in w w1 then Inl KeyboardInterrupt else Inr ())"
    using pre register_step[OF _ assms(2), of s r1 s1 w1] by (auto split: if_splits)
  then have e1: "same_env w w1" by simp
  show ?thesis
  proof (cases r1)
    case (Inl e)
    with assms(1) pre st1 show ?thesis
      by (auto simp: send_reading_def split: if_splits)
  next
    case (Inr u)
    then have ni1: "\<not> interrupted_in w w1" using st1 by (auto split: if_splits)
    have q1: "quiet w1" by (rule same_env_quiet[OF e1 assms(2)])
    obtain rd w2 where g: "generate_reading s1 w1 = (Inr rd, w2)" and e2: "same_env w1 w2"
      and c2: "calls w2 = calls w1"
      using generate_reading_step[OF q1, of s1] by blast
    have ni2: "\<not> interrupted_in w w2" using ni1 c2 e1 e2
      by (simp add: interrupted_in_def same_env_def split: option.splits)
    have e12: "same_env w w2" by (rule same_env_trans[OF e1 e2])
    have q2: "quiet w2" by (rule same_env_quiet[OF e12 assms(2)])
    obtain r3 s3 w3 where t: "send_reading_try rd s1 w2 = (r3, s3, w3)"
      by (cases "send_reading_try rd s1 w2")
    note st3 = send_reading_try_step[OF t q2]
    then have e3: "same_env w2 w3" by simp
    have i3: "interrupted_in w w3 = interrupted_in w2 w3"
      using interrupted_in_trans[OF e12 e3] ni2 by simp
    have e: "same_env w w3" by (rule same_env_trans[OF e12 e3])
    from assms(1) pre Inr g t st3 i3 e show ?thesis
      by (auto simp: send_reading_def split: if_splits)
  qed
qed

lemma send_all_step:
  "send_all ss w = (r, ss', w') \<Longrightarrow> quiet w \<Longrightarrow>
   same_env w w' \<and> r = (if interrupted_in w w' then Inl KeyboardInterrupt else Inr ())"
proof (induction ss arbitrary: w r ss' w')
  case Nil
  then show ?case by simp
next
  case (Cons s rest)
  obtain r1 s1 w1 where sr: "send_reading s w = (r1, s1, w1)" by (cases "send_reading s w")
  note st = send_reading_step[OF sr Cons.prems(2)]
  then have e1: "same_env w w1" by simp
  show ?case
  proof (cases r1)
    case (Inl e)
    with Cons.prems(1) sr st show ?thesis by (auto split: if_splits)
  next
    case (Inr u)
    then have ni: "\<not> interrupted_in w w1" using st by (auto split: if_splits)
    obtain r2 rest1 w2 where sa: "send_all rest w1 = (r2, rest1, w2)" by (cases "send_all rest w1")
    note ih = Cons.IH[OF sa same_env_quiet[OF e1 Cons.prems(2)]]
    then have e2: "same_env w1 w2" by simp
    from Cons.prems(1) sr Inr sa ih interrupted_in_trans[OF e1 e2] ni same_env_trans[OF e1 e2]
    show ?thesis by auto
  qed
qed




lemma make_sensors_env:
  "make_sensors is w = (ss, w') \<Longrightarrow>
   length ss = length is \<and> server w' = server w \<and> normals w' = normals w \<and>
   sigint w' = sigint w \<and> calls w' = calls w \<and> stdout w' = stdout w"
proof (induction "is" arbitrary: w ss w')
  case Nil
  then show ?case by simp
next
  case (Cons i rest)
  then show ?case
    by (auto simp: SensorSimulator_def random_uniform_def Let_def split: prod.splits)
qed


lemma BASELINES_simps:
  "the (BASELINES ''temperature'') = 20" "the (BASELINES ''humidity'') = 35"
  "the (BASELINES ''pressure'') = 101" "the (BASELINES ''mq2_r0'') = 320"
  by (simp_all add: BASELINES_def)

lemmas run_defs = main_def main_try_def py_range_def SensorSimulator_def random_uniform_def
  register_def requests_post_def response_json_def time_sleep_def time_time_def random_gauss_def
  print_def send_reading_def send_reading_try_def generate_reading_def BASELINES_simps
  format_0d_def str.simps digit_def py_round_def round_half_even_def py_int_def exit_code_def
  Let_def upt_rec

lemmas input_defs = world0_def world_sigint_def args0_def answer_def world_replies_def
  world_normals_def world_clock_def sensor0_def reading0_def

lemma moved_refl [simp]: "moved w w 0 [] 0 0"
  by (simp add: moved_def)

lemma moved_print [simp]:
  "moved w (print m w') k new d t = moved w w' k new d t"
  "moved (print m w) w' k new d t = moved w w' k new d t"
  by (simp_all add: moved_def)






lemma generate_reading_moved:
  "generate_reading s w = (r, w') \<Longrightarrow>
   (case r of Inl e \<Rightarrow> e = ZeroDivisionError \<and> zero_divisor w (drawn w + 4) \<and> moved w w' 0 [] 6 1
            | Inr rd \<Rightarrow> \<not> zero_divisor w (drawn w + 4) \<and> moved w w' 0 [] 9 2)"
proof -
  have four: "drawn w + 4 = Suc (Suc (Suc (Suc (drawn w))))" by simp
  assume "generate_reading s w = (r, w')"
  then show ?thesis
    unfolding four
    by (auto simp: generate_reading_def zero_divisor_def time_time_def random_gauss_def Let_def
        moved_def split: if_splits)
qed



lemma updates_append [simp]: "updates (a @ b) = updates a @ updates b"
  by (induction a rule: updates.induct) simp_all





lemma round_half_even_error: "\<bar>of_int (round_half_even y) - y\<bar> \<le> 1 / 2"
  unfolding round_half_even_def Let_def by (auto split: if_splits)

lemma py_round_error: "\<bar>py_round x n - x\<bar> \<le> 1 / (2 * 10 ^ n)"
proof -
  have "\<bar>py_round x n - x\<bar> = \<bar>of_int (round_half_even (x * 10 ^ n)) - x * 10 ^ n\<bar> / 10 ^ n"
    by (simp add: py_round_def field_simps abs_divide)
  also have "\<dots> \<le> (1 / 2) / 10 ^ n"
    by (rule divide_right_mono[OF round_half_even_error]) simp
  finally show ?thesis by simp
qed

lemma generate_reading_fields:
  assumes "fst (generate_reading s w) = Inr rd"
  shows "temperature rd = py_round (the (BASELINES ''temperature'') +
            (2 * sin ((clock w (reads w) + time_offset s) / 60) + (0 + normals w (drawn w) * 0.3))) 2"
    and "humidity rd = py_round (the (BASELINES ''humidity'') +
            (- 1.5 * sin ((clock w (reads w) + time_offset s) / 60) + (0 + normals w (drawn w + 1) * 0.5))) 2"
    and "gasResistance rd = py_round (gas_resistance_base s +
            (0 + normals w (drawn w + 3) * (gas_resistance_base s * 0.1))) 2"
    and "mq2_r0 rd = py_round (the (BASELINES ''mq2_r0'') + (0 + normals w (drawn w + 4) * 5)) 1"
    and "mq2_rs rd = py_round ((the (BASELINES ''mq2_r0'') + (0 + normals w (drawn w + 4) * 5)) *
            (3 + (0 + normals w (drawn w + 5) * 0.2))) 2"
    and "mq2_ratio rd = py_round ((the (BASELINES ''mq2_r0'') + (0 + normals w (drawn w + 4) * 5)) *
            (3 + (0 + normals w (drawn w + 5) * 0.2)) /
            (the (BASELINES ''mq2_r0'') + (0 + normals w (drawn w + 4) * 5))) 3"
    and "the (BASELINES ''mq2_r0'') + (0 + normals w (drawn w + 4) * 5) \<noteq> 0"
proof -
  have n: "drawn w + 1 = Suc (drawn w)" "drawn w + 3 = Suc (Suc (Suc (drawn w)))"
    "drawn w + 4 = Suc (Suc (Suc (Suc (drawn w))))"
    "drawn w + 5 = Suc (Suc (Suc (Suc (Suc (drawn w)))))" by simp_all
  from assms have
    "rd = \<lparr>rd_name = name s, rd_plant_id = plant_id s, rd_disease_status = disease_status s,
           timestamp = timestamp rd, temperature = temperature rd, humidity = humidity rd,
           pressure = pressure rd, gasResistance = gasResistance rd, mq2_rs = mq2_rs rd,
           mq2_ratio = mq2_ratio rd, mq2_r0 = mq2_r0 rd, mq2_delta = mq2_delta rd,
           mq2_variance = mq2_variance rd, mq2_baseline = mq2_baseline rd\<rparr>"
    by (auto simp: generate_reading_def time_time_def random_gauss_def Let_def split: if_splits)
  from assms show "temperature rd = py_round (the (BASELINES ''temperature'') +
            (2 * sin ((clock w (reads w) + time_offset s) / 60) + (0 + normals w (drawn w) * 0.3))) 2"
    and "humidity rd = py_round (the (BASELINES ''humidity'') +
            (- 1.5 * sin ((clock w (reads w) + time_offset s) / 60) + (0 + normals w (drawn w + 1) * 0.5))) 2"
    and "gasResistance rd = py_round (gas_resistance_base s +
            (0 + normals w (drawn w + 3) * (gas_resistance_base s * 0.1))) 2"
    and "mq2_r0 rd = py_round (the (BASELINES ''mq2_r0'') + (0 + normals w (drawn w + 4) * 5)) 1"
    and "mq2_rs rd = py_round ((the (BASELINES ''mq2_r0'') + (0 + normals w (drawn w + 4) * 5)) *
            (3 + (0 + normals w (drawn w + 5) * 0.2))) 2"
    and "mq2_ratio rd = py_round ((the (BASELINES ''mq2_r0'') + (0 + normals w (drawn w + 4) * 5)) *
            (3 + (0 + normals w (drawn w + 5) * 0.2)) /
            (the (BASELINES ''mq2_r0'') + (0 + normals w (drawn w + 4) * 5))) 3"
    and "the (BASELINES ''mq2_r0'') + (0 + normals w (drawn w + 4) * 5) \<noteq> 0"
    unfolding n
    by (auto simp: generate_reading_def time_time_def random_gauss_def Let_def split: if_splits)
qed

lemma make_sensors_disease:
  "map disease_status (fst (make_sensors is w)) =
   map (\<lambda>i. if i mod 3 = 2 then ''infected'' else ''healthy'') is"
  by (induction "is" arbitrary: w)
     (simp_all add: SensorSimulator_def random_uniform_def Let_def split_def)

lemma generate_reading_sensor0: "fst (generate_reading sensor0 world0) = Inr reading0"
  by (simp add: run_defs input_defs)

lemma make_sensors_sensor0: "fst (make_sensors (py_range 1) world0) = [sensor0]"
  by (simp add: run_defs input_defs numeral_2_eq_2)

lemma generate_reading_returns:
  assumes "\<not> zero_divisor w (drawn w + 4)"
  shows "fst (generate_reading s w) = Inr (projr (fst (generate_reading s w)))"
proof -
  obtain r w' where g: "generate_reading s w = (r, w')" by (cases "generate_reading s w")
  from generate_reading_moved[OF g] assms show ?thesis
    by (cases r) (simp_all add: g)
qed

section \<open>The claims\<close>




text \<open>
  C2 fails on the code. When the server refuses a request with a body that is not JSON (a
  status 500 with an HTML page, say), the \<open>response.json()\<close> inside the failure message
  raises \<open>JSONDecodeError\<close>, which is not a \<open>ConnectionError\<close>: it leaves \<open>register\<close>, leaves
  \<open>send_reading\<close> (from the registration of line 100, and from the second refusal of line
  119), and ends \<open>main\<close> with a failure status.
\<close>

theorem C2_undecodable_rejection_raises:
  "fst (register sensor0 (world_replies [answer 500 None])) = Inl JSONDecodeError \<and>
   fst (send_reading sensor0 (world_replies [answer 500 None])) = Inl JSONDecodeError \<and>
   fst (send_reading (sensor0\<lparr>registered := True\<rparr>)
          (world_replies [answer 500 None, answer 200 (Some ''{}''), answer 500 None])) = Inl JSONDecodeError \<and>
   map_option fst (main 5 args0 (world_replies [answer 500 None])) = Some (Inl JSONDecodeError) \<and>
   exit_code (Inl JSONDecodeError) = 1"
  by (simp add: run_defs input_defs)

text \<open>
  The failures that the code does contain. In a world where every rejection carries a JSON body
  and the divisor of line 75 is never zero, and without an interrupt, \<open>register\<close>,
  \<open>send_reading\<close> and a whole round over the sensors return normally, whatever the
  server does otherwise: refusals and unreachable endpoints end as printed lines.
\<close>

theorem failures_are_contained:
  assumes "quiet w" and "sigint w = None"
  shows "fst (register s w) = Inr () \<and> fst (send_reading s w) = Inr () \<and>
         fst (send_all ss w) = Inr ()"
proof -
  have "fst (register s w) = Inr ()"
    using register_step[of s w "fst (register s w)" "fst (snd (register s w))"
        "snd (snd (register s w))"] assms
    by (simp add: interrupted_in_def)
  moreover have "fst (send_reading s w) = Inr ()"
    using send_reading_step[of s w "fst (send_reading s w)" "fst (snd (send_reading s w))"
        "snd (snd (send_reading s w))"] assms
    by (simp add: interrupted_in_def)
  moreover have "fst (send_all ss w) = Inr ()"
    using send_all_step[of ss w "fst (send_all ss w)" "fst (snd (send_all ss w))"
        "snd (snd (send_all ss w))"] assms
    by (simp add: interrupted_in_def)
  ultimately show ?thesis by blast
qed

text \<open>
  A server that cannot be reached, then refuses with 404 and a JSON body, then cannot be
  reached again, then accepts: the call returns normally after four blocking calls and
  the sensor stays unregistered.
\<close>

theorem failures_are_contained_witness:
  "quiet (world_replies [Unreachable, answer 404 (Some ''{}''), Unreachable]) \<and>
   sigint (world_replies [Unreachable, answer 404 (Some ''{}''), Unreachable]) = None \<and>
   fst (send_reading sensor0 (world_replies [Unreachable, answer 404 (Some ''{}''), Unreachable])) = Inr () \<and>
   \<not> registered (fst (snd (send_reading sensor0
       (world_replies [Unreachable, answer 404 (Some ''{}''), Unreachable])))) \<and>
   calls (snd (snd (send_reading sensor0
       (world_replies [Unreachable, answer 404 (Some ''{}''), Unreachable])))) = 4"
proof -
  let ?W = "world_replies [Unreachable, answer 404 (Some ''{}''), Unreachable]"
  have q: "quiet ?W"
    by (simp add: quiet_def raises_json_def zero_divisor_def BASELINES_simps input_defs
        nth_Cons split: nat.split)
  have n: "sigint ?W = None" by (simp add: input_defs)
  have "\<not> registered (fst (snd (send_reading sensor0 ?W)))"
    "calls (snd (snd (send_reading sensor0 ?W))) = 4"
    by (simp_all add: run_defs input_defs)
  with q n failures_are_contained[OF q n, where s = sensor0 and ss = "[]"] show ?thesis by blast
qed

text \<open>
  C3, as the code has it. The reported \<open>mq2_ratio\<close> of every generated reading is the
  quotient of the unrounded \<open>mq2_rs\<close> and \<open>mq2_r0\<close>, rounded to three decimals, where the
  reported \<open>mq2_rs\<close> and \<open>mq2_r0\<close> are the same two values rounded to two decimals and to
  one; it differs from the unrounded quotient by at most 0.0005.
\<close>

theorem C3_ratio_of_unrounded_values:
  assumes "fst (generate_reading s w) = Inr rd"
  shows "mq2_r0 rd = py_round (raw_mq2_r0 w) 1 \<and>
         mq2_rs rd = py_round (raw_mq2_rs w) 2 \<and>
         mq2_ratio rd = py_round (raw_mq2_rs w / raw_mq2_r0 w) 3 \<and>
         \<bar>mq2_ratio rd - raw_mq2_rs w / raw_mq2_r0 w\<bar> \<le> 5 / 10000"
proof -
  note f = generate_reading_fields[OF assms]
  have r: "mq2_ratio rd = py_round (raw_mq2_rs w / raw_mq2_r0 w) 3"
    using f(6) by (simp add: raw_mq2_rs_def raw_mq2_r0_def random_gauss_def)
  have "\<bar>py_round (raw_mq2_rs w / raw_mq2_r0 w) 3 - raw_mq2_rs w / raw_mq2_r0 w\<bar> \<le> 1 / (2 * 10 ^ 3)"
    by (rule py_round_error)
  then have "\<bar>mq2_ratio rd - raw_mq2_rs w / raw_mq2_r0 w\<bar> \<le> 5 / 10000"
    using r by simp
  with f(4,5) r show ?thesis
    by (simp add: raw_mq2_rs_def raw_mq2_r0_def random_gauss_def)
qed

text \<open>With all variates zero: 960 / 320, reported as 3.\<close>

theorem C3_witness:
  "fst (generate_reading sensor0 world0) = Inr reading0 \<and>
   raw_mq2_r0 world0 = 320 \<and> raw_mq2_rs world0 = 960 \<and>
   mq2_ratio reading0 = py_round (raw_mq2_rs world0 / raw_mq2_r0 world0) 3 \<and>
   \<bar>mq2_ratio reading0 - raw_mq2_rs world0 / raw_mq2_r0 world0\<bar> \<le> 5 / 10000"
proof -
  note g = generate_reading_sensor0
  have "raw_mq2_r0 world0 = 320" "raw_mq2_rs world0 = 960"
    by (simp_all add: raw_mq2_rs_def raw_mq2_r0_def random_gauss_def BASELINES_simps input_defs)
  with g C3_ratio_of_unrounded_values[OF g] show ?thesis by blast
qed

text \<open>
  C3 as stated fails in its second half. With the variates 0.01002 and 2.00255 for
  \<open>mq2_r0\<close> and \<open>mq2_rs\<close> the unrounded values are 320.0501 and 1088.333565551; the
  reading reports the ratio 3.401, \<open>mq2_rs\<close> 1088.33 and \<open>mq2_r0\<close> 320.1, and the quotient
  of the reported values is more than 0.001 away from the reported ratio and rounds to
  3.4: rounding \<open>mq2_r0\<close> to one decimal alone moves the quotient by up to 0.0005.
\<close>

theorem C3_counterexample:
  "map_sum id mq2_ratio (fst (generate_reading sensor0 (world_normals [0, 0, 0, 0, 0.01002, 2.00255]))) = Inr 3.401 \<and>
   map_sum id mq2_rs (fst (generate_reading sensor0 (world_normals [0, 0, 0, 0, 0.01002, 2.00255]))) = Inr 1088.33 \<and>
   map_sum id mq2_r0 (fst (generate_reading sensor0 (world_normals [0, 0, 0, 0, 0.01002, 2.00255]))) = Inr 320.1 \<and>
   (1 / 1000 :: real) < \<bar>3.401 - 1088.33 / 320.1\<bar> \<and>
   py_round (1088.33 / 320.1) 3 = 3.4"
  by (simp add: run_defs input_defs)

text \<open>
  C4. The constructor sets the gas resistance baseline to 150.0 for a healthy and to 50.0
  for an infected sensor; no sequence of method calls changes it; and the
  \<open>gasResistance\<close> of every generated reading is the baseline plus the fourth Gaussian
  draw of the call, taken with mean 0 and a standard deviation of a tenth of the baseline,
  rounded to two decimals.
\<close>

theorem C4_gas_resistance_baseline:
  "gas_resistance_base (fst (SensorSimulator nm loc pid ''healthy'' w0)) = 150.0 \<and>
   gas_resistance_base (fst (SensorSimulator nm loc pid ''infected'' w0)) = 50.0 \<and>
   gas_resistance_base (fst (calls_seq ms s w1)) = gas_resistance_base s \<and>
   (fst (generate_reading s w) = Inr rd \<longrightarrow>
      gasResistance rd =
        py_round (gas_resistance_base s +
                  fst (random_gauss 0 (gas_resistance_base s * 0.1) (w\<lparr>drawn := drawn w + 3\<rparr>))) 2)"
proof -
  have a: "gas_resistance_base (fst (SensorSimulator nm loc pid ''healthy'' w0)) = 150.0"
    "gas_resistance_base (fst (SensorSimulator nm loc pid ''infected'' w0)) = 50.0"
    by (simp_all add: SensorSimulator_def random_uniform_def Let_def)
  have b: "gas_resistance_base (fst (calls_seq ms s w1)) = gas_resistance_base s"
    using calls_seq_same_node[of ms s w1 "fst (calls_seq ms s w1)" "snd (calls_seq ms s w1)"]
    by (simp add: same_node_def)
  have c: "gasResistance rd =
        py_round (gas_resistance_base s +
                  fst (random_gauss 0 (gas_resistance_base s * 0.1) (w\<lparr>drawn := drawn w + 3\<rparr>))) 2"
    if "fst (generate_reading s w) = Inr rd"
    using generate_reading_fields(3)[OF that] by (simp add: random_gauss_def)
  from a b c show ?thesis by blast
qed

text \<open>The first sensor, healthy, with all variates zero: 150 throughout.\<close>

theorem C4_witness:
  "fst (generate_reading sensor0 world0) = Inr reading0 \<and>
   gas_resistance_base (fst (SensorSimulator ''sensor_01'' ''greenhouse_zone_1'' ''plant_001'' ''healthy'' world0)) = 150 \<and>
   gas_resistance_base (fst (SensorSimulator ''sensor_03'' ''greenhouse_zone_3'' ''plant_003'' ''infected'' world0)) = 50 \<and>
   gas_resistance_base (fst (calls_seq [Call_register, Call_send_reading] sensor0 world0)) = 150 \<and>
   gasResistance reading0 = py_round (150 + fst (random_gauss 0 (150 * 0.1) (world0\<lparr>drawn := drawn world0 + 3\<rparr>))) 2"
proof -
  note g = generate_reading_sensor0
  have b: "gas_resistance_base sensor0 = 150" by (simp add: sensor0_def)
  from C4_gas_resistance_baseline[of "''sensor_01''" "''greenhouse_zone_1''" "''plant_001''" world0
      "[Call_register, Call_send_reading]" sensor0 world0 world0 reading0]
    C4_gas_resistance_baseline[of "''sensor_03''" "''greenhouse_zone_3''" "''plant_003''" world0
      "[Call_register, Call_send_reading]" sensor0 world0 world0 reading0] g b
  show ?thesis by simp
qed

text \<open>
  C5. For every node count \<open>n\<close> the loop of \<open>main\<close> builds \<open>n\<close> sensors (none for a
  negative \<open>n\<close>), and the sensor at position \<open>i\<close>, counted from 0, is infected when
  \<open>i mod 3 = 2\<close> and healthy otherwise.
\<close>

theorem C5_every_third_sensor_infected:
  "length (fst (make_sensors (py_range n) w)) = nat n \<and>
   map disease_status (fst (make_sensors (py_range n) w)) =
     map (\<lambda>i. if i mod 3 = 2 then ''infected'' else ''healthy'') [0..<nat n]"
  using make_sensors_disease[of "py_range n" w] make_sensors_env[of "py_range n" w
      "fst (make_sensors (py_range n) w)" "snd (make_sensors (py_range n) w)"]
  by (simp add: py_range_def)

text \<open>Seven sensors: the third and the sixth are infected.\<close>

theorem C5_witness:
  "map disease_status (fst (make_sensors (py_range 7) world0)) =
     [''healthy'', ''healthy'', ''infected'', ''healthy'', ''healthy'', ''infected'', ''healthy'']"
  using C5_every_third_sensor_infected[of 7 world0] by (simp add: upt_rec)

text \<open>
  C6. With \<open>t\<close> the first clock reading of the call plus the phase offset of the sensor,
  the temperature of every generated reading is 20.0 + 2.0 sin(t/60) plus the first
  Gaussian draw (mean 0, standard deviation 0.3), rounded to two decimals; the humidity
  is 35.0 - 1.5 sin(t/60) plus the second draw (standard deviation 0.5), rounded to two
  decimals; and the sinusoidal term of the humidity is -0.75 times that of the
  temperature.
\<close>

theorem C6_temperature_and_humidity:
  assumes "fst (generate_reading s w) = Inr rd"
  shows "let t = fst (time_time w) + time_offset s in
           temperature rd =
             py_round (20.0 + 2.0 * sin (t / 60) + fst (random_gauss 0 0.3 w)) 2 \<and>
           humidity rd =
             py_round (35.0 - 1.5 * sin (t / 60) +
                       fst (random_gauss 0 0.5 (w\<lparr>drawn := drawn w + 1\<rparr>))) 2 \<and>
           - 1.5 * sin (t / 60) = - 0.75 * (2.0 * sin (t / 60))"
  using generate_reading_fields(1,2)[OF assms]
  by (simp add: Let_def time_time_def random_gauss_def BASELINES_simps algebra_simps)

text \<open>
  With all variates zero and the clock at \<open>30 \<pi>\<close>, so that \<open>t / 60 = \<pi> / 2\<close>: the temperature is
  at its peak, 22, and the humidity at its trough, 33.5.
\<close>

theorem C6_witness:
  "fst (generate_reading sensor0 (world_clock (30 * pi))) =
     Inr (projr (fst (generate_reading sensor0 (world_clock (30 * pi))))) \<and>
   fst (time_time (world_clock (30 * pi))) + time_offset sensor0 = 30 * pi \<and>
   temperature (projr (fst (generate_reading sensor0 (world_clock (30 * pi))))) = 22 \<and>
   humidity (projr (fst (generate_reading sensor0 (world_clock (30 * pi))))) = 33.5"
proof -
  let ?W = "world_clock (30 * pi)"
  have "\<not> zero_divisor ?W (drawn ?W + 4)"
    by (simp add: zero_divisor_def BASELINES_simps input_defs)
  then have g: "fst (generate_reading sensor0 ?W) = Inr (projr (fst (generate_reading sensor0 ?W)))"
    by (rule generate_reading_returns)
  have t: "fst (time_time ?W) + time_offset sensor0 = 30 * pi"
    by (simp add: time_time_def input_defs)
  have z: "fst (random_gauss 0 0.3 ?W) = 0"
    "fst (random_gauss 0 0.5 (?W\<lparr>drawn := drawn ?W + 1\<rparr>)) = 0"
    by (simp_all add: random_gauss_def input_defs)
  have r: "py_round 22 2 = 22" "py_round 33.5 2 = 33.5"
    by (simp_all add: py_round_def round_half_even_def)
  from C6_temperature_and_humidity[OF g]
  have "temperature (projr (fst (generate_reading sensor0 ?W))) = 22 \<and>
        humidity (projr (fst (generate_reading sensor0 ?W))) = 33.5"
    unfolding Let_def t z using r by simp
  with g t show ?thesis by blast
qed

text \<open>
  C7. After \<open>register\<close> the sensor is the one before with \<open>registered\<close> set if the server
  accepted the request, and unchanged otherwise (unreachable endpoint, refusal,
  interrupt): the flag is never cleared and is set only on a 200. The call makes exactly
  one blocking call and sends at most the one registration request, so nothing is
  retried.
\<close>

theorem C7_register_sets_flag_on_200:
  "fst (snd (register s w)) = s\<lparr>registered := registered s \<or> accepts w\<rparr> \<and>
   calls (snd (snd (register s w))) = Suc (calls w) \<and>
   sent (snd (snd (register s w))) =
     sent w @ (if sigint w = Some (calls w) then []
               else [(BASE_URL w @ ''/register'', Registration (name s) (location s))])"
  by (simp add: register_def requests_post_def response_json_def accepts_def accepted_def Let_def
      print_def split: reply.split option.split)

text \<open>Accepted, refused with 404, unreachable.\<close>

theorem C7_witness:
  "registered (fst (snd (register sensor0 world0))) \<and>
   \<not> registered (fst (snd (register sensor0 (world_replies [answer 404 (Some ''{}'')])))) \<and>
   \<not> registered (fst (snd (register sensor0 (world_replies [Unreachable])))) \<and>
   calls (snd (snd (register sensor0 (world_replies [Unreachable])))) = 1 \<and>
   length (sent (snd (snd (register sensor0 (world_replies [Unreachable]))))) = 1"
  using C7_register_sets_flag_on_200[of sensor0 world0] C7_register_sets_flag_on_200[of sensor0 "world_replies [answer 404 (Some ''{}'')]"]
    C7_register_sets_flag_on_200[of sensor0 "world_replies [Unreachable]"]
  by (simp add: accepts_def accepted_def input_defs)

text \<open>
  C8. Whatever sequence of \<open>register\<close>, \<open>generate_reading\<close> and \<open>send_reading\<close> calls is
  made on a sensor, its name, location, plant id, disease status, phase offset and gas
  resistance baseline keep the values they had before the sequence; only \<open>registered\<close>
  can differ.
\<close>

theorem C8_only_registered_is_mutated: "name (fst (calls_seq ms s w)) = name s \<and>
   location (fst (calls_seq ms s w)) = location s \<and>
   plant_id (fst (calls_seq ms s w)) = plant_id s \<and>
   disease_status (fst (calls_seq ms s w)) = disease_status s \<and>
   time_offset (fst (calls_seq ms s w)) = time_offset s \<and>
   gas_resistance_base (fst (calls_seq ms s w)) = gas_resistance_base s"
  using calls_seq_same_node[of ms s w "fst (calls_seq ms s w)" "snd (calls_seq ms s w)"]
  by (simp add: same_node_def)






end
